theory Spec2Isabelle
  imports Main
begin

section \<open>The URL shortener of App.jsx\<close>

text \<open>
  A shallow embedding of \<^verbatim>\<open>Frontend_test_submission/src/App.jsx\<close>: the persistent
  store (\<^verbatim>\<open>getStoredUrls\<close>, \<^verbatim>\<open>setStoredUrls\<close>), the validator
  (\<^verbatim>\<open>isShortcodeUnique\<close>, \<^verbatim>\<open>isValidShortcode\<close>, \<^verbatim>\<open>validateInputs\<close>), the code
  generator (\<^verbatim>\<open>generateShortCode\<close>), the submission handler (\<^verbatim>\<open>handleShorten\<close>) and
  the effect of the redirect view (\<^verbatim>\<open>RedirectShortUrl\<close>).

  What the browser provides is a parameter of the model, never a definition of it: the
  URL parser behind \<^verbatim>\<open>new URL\<close>, the clock, the page origin, the strings that
  \<^verbatim>\<open>Math.random().toString(36)\<close> yields, and the two directions of \<^verbatim>\<open>JSON\<close>.
\<close>

subsection \<open>Data\<close>

text \<open>
  A stored link, as the object literal of \<^verbatim>\<open>handleShorten\<close> builds it. The two
  timestamps are ISO strings in the source; the model keeps the time value in
  milliseconds that the string prints. \<^verbatim>\<open>clicks\<close> is a JavaScript number that only
  ever holds a count; the model counts in natural numbers, which is what the source
  computes as long as a count stays below \<open>2^53\<close>.
\<close>

record entry =
  originalUrl :: string
  shortcode :: string
  shortUrl :: string
  createdAt :: int
  expiresAt :: int
  clicks :: nat

text \<open>
  One row of the form, \<^verbatim>\<open>{ url, validity, shortcode }\<close>: three raw strings. The
  third field is \<^verbatim>\<open>shortcode\<close> in the source; it is suffixed here because a stored
  link has a field of the same name.
\<close>

record input =
  url :: string
  validity :: string
  shortcode_in :: string

text \<open>
  The keys of the error bag are the template strings \<^verbatim>\<open>url${idx}\<close>,
  \<^verbatim>\<open>validity${idx}\<close> and \<^verbatim>\<open>shortcode${idx}\<close>: a field name and a row index.
\<close>

datatype field = Url | Validity | Shortcode

type_synonym error_bag = "((field \<times> nat) \<times> string) list"

text \<open>The only exception the handler can raise: \<^verbatim>\<open>toISOString\<close> of an invalid date.\<close>

datatype error = RangeError

text \<open>Values that \<^verbatim>\<open>JSON.parse\<close> returns. Numbers are kept as integers: the only
  thing the source does with a parsed value is to test its truthiness.\<close>

datatype json =
  JNull
  | JBool bool
  | JNumber int
  | JString string
  | JArray "json list"
  | JObject "(string \<times> json) list"

text \<open>
  The browser, as far as the source calls it: \<^verbatim>\<open>new URL(s)\<close> returns (rather than
  throws), \<^verbatim>\<open>window.location.origin\<close>, the time value of \<^verbatim>\<open>new Date()\<close>, the
  string that the \<open>k\<close>-th call of \<^verbatim>\<open>Math.random().toString(36)\<close> gives, and
  \<^verbatim>\<open>JSON.stringify\<close> on a list of links.
\<close>

record platform =
  URL_parses :: "string \<Rightarrow> bool"
  origin :: string
  now :: int
  random36 :: "nat \<Rightarrow> string"
  stringify :: "entry list \<Rightarrow> string"

text \<open>
  The state \<^verbatim>\<open>handleShorten\<close> reads and writes: the four \<^verbatim>\<open>useState\<close> cells of
  \<^verbatim>\<open>MainApp\<close> and the item of \<^verbatim>\<open>localStorage\<close> under \<^verbatim>\<open>STORAGE_KEY\<close>
  (\<open>None\<close> when the key is absent). The success message is determined by the number
  it announces: \<open>None\<close> is the empty string, \<open>Some n\<close> the text for \<open>n\<close> links.
\<close>

record app =
  inputs :: "input list"
  shortenedUrls :: "entry list"
  errors :: error_bag
  successMessage :: "nat option"
  storage :: "string option"

text \<open>How a run of \<^verbatim>\<open>handleShorten\<close> ends: the early return after a failed validation,
  an exception, or the end of the function body. Each carries the state it leaves.\<close>

datatype outcome = Rejected app | Threw error app | Shortened app

text \<open>What the effect of the redirect view does next: assign \<^verbatim>\<open>window.location.href\<close>,
  or \<^verbatim>\<open>setTimeout(() => navigate(path), ms)\<close>.\<close>

datatype effect = Redirect string | NavigateAfter nat string

subsection \<open>Constants and the store\<close>

definition DEFAULT_VALIDITY :: int where
  "DEFAULT_VALIDITY = 30"

definition blank :: input where
  "blank = \<lparr>url = [], validity = [], shortcode_in = []\<rparr>"

fun truthy :: "json \<Rightarrow> bool" where
  "truthy JNull = False"
| "truthy (JBool b) = b"
| "truthy (JNumber n) = (n \<noteq> 0)"
| "truthy (JString s) = (s \<noteq> [])"
| "truthy (JArray xs) = True"
| "truthy (JObject kvs) = True"

text \<open>
  \<^verbatim>\<open>JSON.parse(x)\<close> for what \<^verbatim>\<open>getItem\<close> returns. \<open>parse_text\<close> is the parser on
  text, \<open>None\<close> when it throws a SyntaxError. A \<^verbatim>\<open>null\<close> argument is first
  converted to the text \<^verbatim>\<open>null\<close>, which denotes the value null.
\<close>

definition JSON_parse :: "(string \<Rightarrow> json option) \<Rightarrow> string option \<Rightarrow> json option" where
  "JSON_parse parse_text x = (case x of None \<Rightarrow> Some JNull | Some s \<Rightarrow> parse_text s)"

text \<open>\<^verbatim>\<open>try { return JSON.parse(localStorage.getItem(STORAGE_KEY)) || []; } catch { return []; }\<close>\<close>

definition getStoredUrls :: "(string \<Rightarrow> json option) \<Rightarrow> string option \<Rightarrow> json" where
  "getStoredUrls parse_text item =
     (case JSON_parse parse_text item of
        None \<Rightarrow> JArray []
      | Some v \<Rightarrow> if truthy v then v else JArray [])"

text \<open>\<^verbatim>\<open>localStorage.setItem(STORAGE_KEY, JSON.stringify(urls))\<close>\<close>

definition setStoredUrls :: "platform \<Rightarrow> entry list \<Rightarrow> string option" where
  "setStoredUrls p urls = Some (stringify p urls)"

subsection \<open>Validator\<close>

text \<open>The character classes of the two regular expressions, by character code.\<close>

definition isDigit :: "char \<Rightarrow> bool" where
  "isDigit c = (48 \<le> (of_char c :: nat) \<and> (of_char c :: nat) \<le> 57)"

definition isAlnum :: "char \<Rightarrow> bool" where
  "isAlnum c =
     ((97 \<le> (of_char c :: nat) \<and> (of_char c :: nat) \<le> 122)
      \<or> (65 \<le> (of_char c :: nat) \<and> (of_char c :: nat) \<le> 90)
      \<or> (48 \<le> (of_char c :: nat) \<and> (of_char c :: nat) \<le> 57))"

text \<open>\<^verbatim>\<open>/^\d+$/.test(s)\<close>\<close>

definition digitsOnly :: "string \<Rightarrow> bool" where
  "digitsOnly s = (s \<noteq> [] \<and> list_all isDigit s)"

text \<open>
  \<^verbatim>\<open>parseInt(s)\<close> on a string of decimal digits. The source calls it only behind
  \<^verbatim>\<open>/^\d+$/.test(s)\<close>: in \<^verbatim>\<open>validateInputs\<close> by the short circuit of \<^verbatim>\<open>||\<close>, in
  \<^verbatim>\<open>handleShorten\<close> because the validation of the same rows has passed. The value
  is exact here. The source computes in doubles, which are exact below \<open>2^53\<close>; a
  validity at or beyond that gives an expiry that is no valid date, in the source and
  in the model alike.
\<close>

definition parseInt :: "string \<Rightarrow> nat" where
  "parseInt s = foldl (\<lambda>acc c. 10 * acc + (of_char c - 48)) 0 s"

text \<open>\<^verbatim>\<open>/^[a-zA-Z0-9]{3,10}$/.test(code)\<close>\<close>

definition isValidShortcode :: "string \<Rightarrow> bool" where
  "isValidShortcode code = (3 \<le> length code \<and> length code \<le> 10 \<and> list_all isAlnum code)"

definition isValidUrl :: "platform \<Rightarrow> string \<Rightarrow> bool" where
  "isValidUrl p u = URL_parses p u"

text \<open>
  \<^verbatim>\<open>isShortcodeUnique(code, currentIdx = -1)\<close>: no stored link has the code, and no
  row of the form other than row \<open>currentIdx\<close> has it in its shortcode field.
\<close>

definition isShortcodeUnique :: "entry list \<Rightarrow> input list \<Rightarrow> string \<Rightarrow> int \<Rightarrow> bool" where
  "isShortcodeUnique urls ins code currentIdx =
     (\<not> list_ex (\<lambda>item. shortcode item = code) urls
      \<and> \<not> list_ex (\<lambda>(idx, inp). int idx \<noteq> currentIdx \<and> shortcode_in inp = code)
            (enumerate 0 ins))"

text \<open>The body of the \<^verbatim>\<open>forEach\<close> callback of \<^verbatim>\<open>validateInputs\<close>: the errors of one row.\<close>

definition validateRow :: "platform \<Rightarrow> entry list \<Rightarrow> input list \<Rightarrow> nat \<Rightarrow> input \<Rightarrow> error_bag" where
  "validateRow p urls ins idx inp =
     (if url inp \<noteq> [] then
        (if \<not> isValidUrl p (url inp) then [((Url, idx), ''Invalid URL'')] else [])
        @ (if validity inp \<noteq> []
              \<and> (\<not> digitsOnly (validity inp) \<or> parseInt (validity inp) \<le> 0)
           then [((Validity, idx), ''Must be a positive number'')] else [])
        @ (if shortcode_in inp \<noteq> [] then
             (if \<not> isValidShortcode (shortcode_in inp)
              then [((Shortcode, idx), ''3-10 alphanumeric chars'')]
              else if \<not> isShortcodeUnique urls ins (shortcode_in inp) (int idx)
              then [((Shortcode, idx), ''This code is already taken'')]
              else [])
           else [])
      else [])"

text \<open>\<^verbatim>\<open>validateInputs\<close> builds \<^verbatim>\<open>newErrors\<close> over all rows; it stores the bag with
  \<^verbatim>\<open>setErrors\<close> and returns whether the bag has no key.\<close>

definition newErrors :: "platform \<Rightarrow> app \<Rightarrow> error_bag" where
  "newErrors p st =
     concat (map (\<lambda>(idx, inp). validateRow p (shortenedUrls st) (inputs st) idx inp)
               (enumerate 0 (inputs st)))"

definition validateInputs :: "platform \<Rightarrow> app \<Rightarrow> app \<times> bool" where
  "validateInputs p st = (st\<lparr>errors := newErrors p st\<rparr>, length (newErrors p st) = 0)"

subsection \<open>Code generator\<close>

text \<open>\<^verbatim>\<open>s.substring(a, b)\<close>: both ends are clamped to the length, and swapped when
  \<open>a > b\<close>.\<close>

definition substring :: "string \<Rightarrow> nat \<Rightarrow> nat \<Rightarrow> string" where
  "substring s a b = take (max a b - min a b) (drop (min a b) s)"

text \<open>
  \<^verbatim>\<open>do { code = Math.random().toString(36).substring(2, 8); } while (!isShortcodeUnique(code));\<close>
  The loop has no bound, so the result is optional: \<open>None\<close> is a loop that never
  ends. \<open>k\<close> counts the random strings already used; the result carries the new count.
\<close>

partial_function (option) generateShortCode ::
    "entry list \<Rightarrow> input list \<Rightarrow> (nat \<Rightarrow> string) \<Rightarrow> nat \<Rightarrow> (string \<times> nat) option" where
  "generateShortCode urls ins rnd k =
     (if \<not> isShortcodeUnique urls ins (substring (rnd k) 2 8) (- 1)
      then generateShortCode urls ins rnd (Suc k)
      else Some (substring (rnd k) 2 8, Suc k))"

subsection \<open>Submission\<close>

text \<open>A \<^verbatim>\<open>Date\<close> is valid when its time value is within 8.64e15 ms of the epoch;
  \<^verbatim>\<open>toISOString\<close> throws a RangeError on any other.\<close>

definition toISOString :: "int \<Rightarrow> error + int" where
  "toISOString t = (if \<bar>t\<bar> \<le> 8640000000000000 then Inr t else Inl RangeError)"

text \<open>The \<^verbatim>\<open>map\<close> callback of \<^verbatim>\<open>handleShorten\<close> once the shortcode is known.\<close>

definition makeEntry :: "platform \<Rightarrow> input \<Rightarrow> string \<Rightarrow> error + entry" where
  "makeEntry p inp code =
     (let minutes = (if validity inp \<noteq> [] then int (parseInt (validity inp)) else DEFAULT_VALIDITY);
          expiry = now p + minutes * 60000
      in case toISOString (now p) of
           Inl e \<Rightarrow> Inl e
         | Inr created \<Rightarrow>
             (case toISOString expiry of
                Inl e \<Rightarrow> Inl e
              | Inr expires \<Rightarrow>
                  Inr \<lparr>originalUrl = url inp, shortcode = code,
                       shortUrl = origin p @ ''/'' @ code,
                       createdAt = created, expiresAt = expires, clicks = 0\<rparr>))"

text \<open>
  \<^verbatim>\<open>.map(input => ...)\<close> over the rows that passed the filter, in order. A row with an
  empty shortcode field calls the generator, which may never return (\<open>None\<close>); the
  first exception ends the whole map.
\<close>

fun newShortened ::
    "platform \<Rightarrow> entry list \<Rightarrow> input list \<Rightarrow> nat \<Rightarrow> input list \<Rightarrow> (error + entry list) option" where
  "newShortened p urls ins k [] = Some (Inr [])"
| "newShortened p urls ins k (inp # rest) =
     (case (if shortcode_in inp \<noteq> [] then Some (shortcode_in inp, k)
            else generateShortCode urls ins (random36 p) k) of
        None \<Rightarrow> None
      | Some (code, k') \<Rightarrow>
          (case makeEntry p inp code of
             Inl e \<Rightarrow> Some (Inl e)
           | Inr item \<Rightarrow>
               (case newShortened p urls ins k' rest of
                  None \<Rightarrow> None
                | Some (Inl e) \<Rightarrow> Some (Inl e)
                | Some (Inr items) \<Rightarrow> Some (Inr (item # items)))))"

text \<open>
  The last block of \<^verbatim>\<open>handleShorten\<close>, guarded by \<^verbatim>\<open>newShortened.length > 0\<close>: the
  new links are appended to the list the component holds, the whole list is written to
  the store, the form is reset and the count is announced.
\<close>

definition commit :: "platform \<Rightarrow> app \<Rightarrow> entry list \<Rightarrow> app" where
  "commit p st new =
     (if length new > 0 then
        st\<lparr>shortenedUrls := shortenedUrls st @ new,
           storage := setStoredUrls p (shortenedUrls st @ new),
           inputs := replicate 5 blank,
           errors := [],
           successMessage := Some (length new)\<rparr>
      else st)"

text \<open>
  \<^verbatim>\<open>handleShorten\<close>. \<open>None\<close>: the generator never returned. The state updates of the
  source are applied in its order; \<^verbatim>\<open>inputs\<close> and \<^verbatim>\<open>shortenedUrls\<close> are the values
  of the render the handler was created in, which \<^verbatim>\<open>setErrors\<close> does not change. The
  two calls of \<^verbatim>\<open>logger\<close> only print. Writing to \<^verbatim>\<open>localStorage\<close> is taken to
  succeed.
\<close>

definition handleShorten :: "platform \<Rightarrow> app \<Rightarrow> outcome option" where
  "handleShorten p st =
     (case validateInputs p st of
        (st1, ok) \<Rightarrow>
          if \<not> ok then Some (Rejected (st1\<lparr>successMessage := None\<rparr>))
          else
            (case newShortened p (shortenedUrls st) (inputs st) 0
                    (filter (\<lambda>inp. url inp \<noteq> []) (inputs st)) of
               None \<Rightarrow> None
             | Some (Inl e) \<Rightarrow> Some (Threw e st1)
             | Some (Inr new) \<Rightarrow> Some (Shortened (commit p st1 new))))"

subsection \<open>Resolution\<close>

text \<open>
  The effect of \<^verbatim>\<open>RedirectShortUrl\<close>, run with the list \<open>urls\<close> that \<^verbatim>\<open>App\<close> holds
  (its copy of the store, read with \<^verbatim>\<open>getStoredUrls\<close> when the page loads), the path
  parameter \<open>code\<close> and the item in \<^verbatim>\<open>localStorage\<close>. It returns the item afterwards
  and what the browser is told to do. The new count is \<^verbatim>\<open>(url.clicks || 0) + 1\<close>: a
  count of zero is falsy and replaced by zero.
\<close>

definition RedirectShortUrl :: "platform \<Rightarrow> entry list \<Rightarrow> string \<Rightarrow> string option \<Rightarrow> string option \<times> effect" where
  "RedirectShortUrl p urls code item =
     (case find (\<lambda>e. shortcode e = code) urls of
        Some found \<Rightarrow>
          (setStoredUrls p
             (map (\<lambda>u. if shortcode u = code
                        then u\<lparr>clicks := (if clicks u \<noteq> 0 then clicks u else 0) + 1\<rparr>
                        else u) urls),
           Redirect (originalUrl found))
      | None \<Rightarrow> (item, NavigateAfter 3000 ''/''))"

subsection \<open>The first unique candidate\<close>

text \<open>
  Candidate \<open>j\<close> of the random source is the first one, from candidate \<open>k\<close> on, that
  \<^verbatim>\<open>isShortcodeUnique\<close> accepts. This is the candidate the loop of the generator stops at.
\<close>

definition firstUnique :: "entry list \<Rightarrow> input list \<Rightarrow> (nat \<Rightarrow> string) \<Rightarrow> nat \<Rightarrow> nat \<Rightarrow> bool" where
  "firstUnique urls ins rnd k j \<longleftrightarrow>
     k \<le> j \<and> isShortcodeUnique urls ins (substring (rnd j) 2 8) (- 1)
     \<and> (\<forall>i. k \<le> i \<and> i < j \<longrightarrow> \<not> isShortcodeUnique urls ins (substring (rnd i) 2 8) (- 1))"

subsection \<open>Concrete inputs\<close>

text \<open>
  A browser to run the model on: URLs parse when they start with \<^verbatim>\<open>https://\<close>, the
  random source gives \<^verbatim>\<open>0.4fzyo82mvyr\<close> first and \<^verbatim>\<open>0.k9x2b7q01c\<close> from then on, and the
  serialiser prints the shortcode and the target of every link.
\<close>

definition demo :: platform where
  "demo = \<lparr>URL_parses = (\<lambda>s. take 8 s = ''https://''), origin = ''http://localhost:5173'',
           now = 1700000000000,
           random36 = (\<lambda>k. if k = 0 then ''0.4fzyo82mvyr'' else ''0.k9x2b7q01c''),
           stringify = (\<lambda>urls. concat (map (\<lambda>e. shortcode e @ '':'' @ originalUrl e @ '';'') urls))\<rparr>"

text \<open>The same browser when \<^verbatim>\<open>Math.random()\<close> returns one half, which prints as
  \<^verbatim>\<open>0.i\<close> in base 36.\<close>

definition half :: platform where
  "half = demo\<lparr>random36 := (\<lambda>k. ''0.i'')\<rparr>"

definition row :: "string \<Rightarrow> string \<Rightarrow> string \<Rightarrow> input" where
  "row u v c = \<lparr>url = u, validity = v, shortcode_in = c\<rparr>"

text \<open>The component on a first visit: an empty store and nothing shown.\<close>

definition fresh :: "input list \<Rightarrow> app" where
  "fresh ins = \<lparr>inputs = ins, shortenedUrls = [], errors = [], successMessage = None, storage = None\<rparr>"

definition batch_plain :: app where
  "batch_plain = fresh [row ''https://example.com'' [] [], blank, blank, blank, blank]"

definition batch_same1 :: app where
  "batch_same1 =
     fresh [row ''https://a.com'' [] ''same1'', row ''https://b.com'' [] ''same1'', blank, blank, blank]"

definition batch_ab :: app where
  "batch_ab = fresh [row ''https://a.com'' [] ''ab'', blank, blank, blank, blank]"

definition batch_ghost :: app where
  "batch_ghost =
     fresh [row ''https://a.com'' [] ''ghost1'', row [] [] ''ghost1'', blank, blank, blank]"

definition batch_ab_ghost :: app where
  "batch_ab_ghost = fresh [row ''https://a.com'' [] ''ab'', row [] [] ''ab'', blank, blank, blank]"

definition link0 :: entry where
  "link0 = \<lparr>originalUrl = ''https://example.com'', shortcode = ''4fzyo8'',
            shortUrl = ''http://localhost:5173/4fzyo8'', createdAt = 1699999000000,
            expiresAt = 1699999600000, clicks = 3\<rparr>"

definition link1 :: entry where
  "link1 = \<lparr>originalUrl = ''https://b.org/x'', shortcode = ''mycode1'',
            shortUrl = ''http://localhost:5173/mycode1'', createdAt = 1700000000000,
            expiresAt = 1700002700000, clicks = 0\<rparr>"

definition link2 :: entry where
  "link2 = \<lparr>originalUrl = ''https://c.net'', shortcode = ''k9x2b7'',
            shortUrl = ''http://localhost:5173/k9x2b7'', createdAt = 1700000000000,
            expiresAt = 1700001800000, clicks = 0\<rparr>"

text \<open>A later visit: one link is stored, and the form holds a row with a validity and a
  custom code, a row with a code but no URL, and a row with a URL only.\<close>

definition returning :: app where
  "returning =
     \<lparr>inputs = [row ''https://b.org/x'' ''45'' ''mycode1'', row [] [] ''ghost1'',
                 row ''https://c.net'' [] [], blank, blank],
      shortenedUrls = [link0], errors = [], successMessage = None,
      storage = Some ''4fzyo8:https://example.com;''\<rparr>"

definition returned :: app where
  "returned =
     \<lparr>inputs = replicate 5 blank,
      shortenedUrls = [link0, link1, link2],
      errors = [], successMessage = Some 2,
      storage = Some ''4fzyo8:https://example.com;mycode1:https://b.org/x;k9x2b7:https://c.net;''\<rparr>"

text \<open>A random source whose first candidate is the code typed into the row without a
  URL of \<open>batch_ghost\<close>.\<close>

definition ghostly :: "nat \<Rightarrow> string" where
  "ghostly k = (if k = 0 then ''0.ghost1abc'' else ''0.k9x2b7q01c'')"

text \<open>What \<^verbatim>\<open>handleShorten\<close> leaves behind on \<open>batch_plain\<close> in the browser \<open>half\<close>.\<close>

definition halved :: app where
  "halved =
     \<lparr>inputs = replicate 5 blank,
      shortenedUrls =
        [\<lparr>originalUrl = ''https://example.com'', shortcode = ''i'',
          shortUrl = ''http://localhost:5173/i'', createdAt = 1700000000000,
          expiresAt = 1700001800000, clicks = 0\<rparr>],
      errors = [], successMessage = Some 1,
      storage = Some ''i:https://example.com;''\<rparr>"





text \<open>A text parser that knows two texts, for running \<^verbatim>\<open>getStoredUrls\<close>.\<close>

definition tiny_parse :: "string \<Rightarrow> json option" where
  "tiny_parse s =
     (if s = ''[]'' then Some (JArray []) else if s = ''null'' then Some JNull else None)"

section \<open>Properties of the parts\<close>

subsection \<open>Store\<close>

text \<open>What \<^verbatim>\<open>getStoredUrls\<close> makes of a text the parser accepts: the parsed value when
  it is truthy, whether or not it is an array, and the empty array otherwise.\<close>

lemma getStoredUrls_parsed:
  "parse_text s = Some v \<Longrightarrow>
     getStoredUrls parse_text (Some s) = (if truthy v then v else JArray [])"
  by (simp add: getStoredUrls_def JSON_parse_def)

subsection \<open>Validator\<close>

lemma set_enumerate_iff:
  "(i, x) \<in> set (enumerate 0 xs) \<longleftrightarrow> i < length xs \<and> x = xs ! i"
  by (auto simp: in_set_enumerate_eq)

lemma list_ex_enumerate:
  "list_ex P (enumerate 0 xs) \<longleftrightarrow> (\<exists>i < length xs. P (i, xs ! i))"
  by (auto simp: list_ex_iff set_enumerate_iff)

lemma isShortcodeUnique_iff:
  "isShortcodeUnique urls ins code c \<longleftrightarrow>
     (\<forall>e \<in> set urls. shortcode e \<noteq> code)
     \<and> (\<forall>i < length ins. int i \<noteq> c \<longrightarrow> shortcode_in (ins ! i) \<noteq> code)"
  by (simp add: isShortcodeUnique_def list_ex_enumerate) (auto simp: list_ex_iff)

lemma validateRow_key:
  "((f, i), m) \<in> set (validateRow p urls ins idx inp) \<Longrightarrow> i = idx"
  by (auto simp: validateRow_def split: if_splits)

lemma validateRow_skips:
  "url inp = [] \<Longrightarrow> validateRow p urls ins idx inp = []"
  by (simp add: validateRow_def)

lemma newErrors_iff:
  "x \<in> set (newErrors p st) \<longleftrightarrow>
     (\<exists>i < length (inputs st).
        x \<in> set (validateRow p (shortenedUrls st) (inputs st) i (inputs st ! i)))"
  by (force simp: newErrors_def set_enumerate_iff)

lemma newErrors_key_iff:
  "((f, i), m) \<in> set (newErrors p st) \<longleftrightarrow>
     i < length (inputs st)
     \<and> ((f, i), m) \<in> set (validateRow p (shortenedUrls st) (inputs st) i (inputs st ! i))"
  using validateRow_key by (fastforce simp: newErrors_iff)

lemma validateRow_Nil:
  assumes "validateRow p urls ins idx inp = []" "url inp \<noteq> []"
  shows "isValidUrl p (url inp)"
    and "validity inp \<noteq> [] \<Longrightarrow> digitsOnly (validity inp) \<and> 0 < parseInt (validity inp)"
    and "shortcode_in inp \<noteq> [] \<Longrightarrow> isValidShortcode (shortcode_in inp)
           \<and> isShortcodeUnique urls ins (shortcode_in inp) (int idx)"
  using assms by (auto simp: validateRow_def split: if_splits)

lemma newErrors_Nil:
  assumes "newErrors p st = []" "i < length (inputs st)"
  shows "validateRow p (shortenedUrls st) (inputs st) i (inputs st ! i) = []"
proof (rule ccontr)
  assume "validateRow p (shortenedUrls st) (inputs st) i (inputs st ! i) \<noteq> []"
  then obtain x where "x \<in> set (validateRow p (shortenedUrls st) (inputs st) i (inputs st ! i))"
    by (cases "validateRow p (shortenedUrls st) (inputs st) i (inputs st ! i)") auto
  with assms(2) have "x \<in> set (newErrors p st)"
    by (auto simp: newErrors_iff)
  with assms(1) show False by simp
qed

lemma valid_rows:
  assumes "newErrors p st = []" "inp \<in> set (inputs st)" "url inp \<noteq> []" "validity inp \<noteq> []"
  shows "digitsOnly (validity inp) \<and> 0 < parseInt (validity inp)"
proof -
  from assms(2) obtain i where i: "i < length (inputs st)" "inputs st ! i = inp"
    by (auto simp: in_set_conv_nth)
  from newErrors_Nil [OF assms(1) i(1)] i(2)
  have "validateRow p (shortenedUrls st) (inputs st) i inp = []" by simp
  from validateRow_Nil(2) [OF this assms(3) assms(4)] show ?thesis .
qed

lemma format_error_iff:
  assumes "idx < length (inputs st)" "url (inputs st ! idx) \<noteq> []"
    and "shortcode_in (inputs st ! idx) \<noteq> []"
  shows "((Shortcode, idx), ''3-10 alphanumeric chars'') \<in> set (newErrors p st)
         \<longleftrightarrow> \<not> isValidShortcode (shortcode_in (inputs st ! idx))"
  using assms by (simp add: newErrors_key_iff validateRow_def)

lemma no_shortcode_error:
  assumes "shortcode_in (inputs st ! idx) = []"
  shows "((Shortcode, idx), m) \<notin> set (newErrors p st)"
  using assms by (simp add: newErrors_key_iff validateRow_def)

lemma taken_error:
  assumes "i < length (inputs st)" "j < length (inputs st)" "i \<noteq> j"
    and "url (inputs st ! i) \<noteq> []"
    and "shortcode_in (inputs st ! i) = s" "shortcode_in (inputs st ! j) = s"
    and "isValidShortcode s"
  shows "((Shortcode, i), ''This code is already taken'') \<in> set (newErrors p st)"
proof -
  from assms(7) have "s \<noteq> []"
    by (auto simp: isValidShortcode_def)
  moreover have "\<not> isShortcodeUnique (shortenedUrls st) (inputs st) s (int i)"
    using assms(2,3,6) by (auto simp: isShortcodeUnique_iff)
  ultimately have "((Shortcode, i), ''This code is already taken'')
      \<in> set (validateRow p (shortenedUrls st) (inputs st) i (inputs st ! i))"
    using assms(4,5,7) by (simp add: validateRow_def)
  then show ?thesis
    using assms(1) by (simp add: newErrors_key_iff)
qed

text \<open>The two character classes, spelled out: the character codes of the model are those
  of the letters and digits that the regular expressions name.\<close>

lemma isAlnum_iff:
  "isAlnum c \<longleftrightarrow> c \<in> set ''abcdefghijklmnopqrstuvwxyzABCDEFGHIJKLMNOPQRSTUVWXYZ0123456789''"
proof (cases c)
  case (Char b0 b1 b2 b3 b4 b5 b6 b7)
  show ?thesis
    unfolding Char isAlnum_def
    by (cases b0; cases b1; cases b2; cases b3; cases b4; cases b5; cases b6; cases b7; simp)
qed

lemma isDigit_iff: "isDigit c \<longleftrightarrow> c \<in> set ''0123456789''"
proof (cases c)
  case (Char b0 b1 b2 b3 b4 b5 b6 b7)
  show ?thesis
    unfolding Char isDigit_def
    by (cases b0; cases b1; cases b2; cases b3; cases b4; cases b5; cases b6; cases b7; simp)
qed

lemma isValidShortcode_iff:
  "isValidShortcode code \<longleftrightarrow>
     3 \<le> length code \<and> length code \<le> 10
     \<and> set code \<subseteq> set ''abcdefghijklmnopqrstuvwxyzABCDEFGHIJKLMNOPQRSTUVWXYZ0123456789''"
  unfolding isValidShortcode_def list_all_iff isAlnum_iff by blast

text \<open>Which rows leave an error: a row with a URL that has an unparsable URL, a validity
  that is not a positive number, or a shortcode that is malformed, stored already, or
  typed into another row as well.\<close>

lemma validateRow_nonempty_iff:
  "validateRow p urls ins idx inp \<noteq> [] \<longleftrightarrow>
     url inp \<noteq> []
     \<and> (\<not> isValidUrl p (url inp)
        \<or> (validity inp \<noteq> [] \<and> (\<not> digitsOnly (validity inp) \<or> parseInt (validity inp) = 0))
        \<or> (shortcode_in inp \<noteq> []
            \<and> (\<not> isValidShortcode (shortcode_in inp)
               \<or> (\<exists>e \<in> set urls. shortcode e = shortcode_in inp)
               \<or> (\<exists>j<length ins. j \<noteq> idx \<and> shortcode_in (ins ! j) = shortcode_in inp))))"
  unfolding validateRow_def isShortcodeUnique_iff by auto

lemma newErrors_nonempty_iff:
  "newErrors p st \<noteq> [] \<longleftrightarrow>
     (\<exists>idx<length (inputs st).
        validateRow p (shortenedUrls st) (inputs st) idx (inputs st ! idx) \<noteq> [])"
proof
  assume "newErrors p st \<noteq> []"
  then obtain x where "x \<in> set (newErrors p st)"
    by (cases "newErrors p st") auto
  then show "\<exists>idx<length (inputs st).
        validateRow p (shortenedUrls st) (inputs st) idx (inputs st ! idx) \<noteq> []"
    unfolding newErrors_iff by auto
next
  assume "\<exists>idx<length (inputs st).
        validateRow p (shortenedUrls st) (inputs st) idx (inputs st ! idx) \<noteq> []"
  then obtain idx where "idx < length (inputs st)"
    and "validateRow p (shortenedUrls st) (inputs st) idx (inputs st ! idx) \<noteq> []"
    by blast
  then show "newErrors p st \<noteq> []"
    using newErrors_Nil by blast
qed

lemma valid_same1: "isValidShortcode ''same1''"
  by (simp add: isValidShortcode_def isAlnum_def)

lemma not_valid_ab: "\<not> isValidShortcode ''ab''"
  by (simp add: isValidShortcode_def)

subsection \<open>Code generator\<close>

lemma length_substring: "length (substring s 2 8) = min 6 (length s - 2)"
  by (simp add: substring_def)

lemma firstUnique_here:
  "isShortcodeUnique urls ins (substring (rnd k) 2 8) (- 1) \<Longrightarrow> firstUnique urls ins rnd k k"
  by (auto simp: firstUnique_def)

lemma firstUnique_later:
  assumes "\<not> isShortcodeUnique urls ins (substring (rnd k) 2 8) (- 1)"
    and "firstUnique urls ins rnd (Suc k) j"
  shows "firstUnique urls ins rnd k j"
  unfolding firstUnique_def
proof (intro conjI allI impI)
  show "k \<le> j" using assms(2) by (simp add: firstUnique_def)
  show "isShortcodeUnique urls ins (substring (rnd j) 2 8) (- 1)"
    using assms(2) by (simp add: firstUnique_def)
  fix i assume i: "k \<le> i \<and> i < j"
  show "\<not> isShortcodeUnique urls ins (substring (rnd i) 2 8) (- 1)"
  proof (cases "i = k")
    case True
    with assms(1) show ?thesis by simp
  next
    case False
    with i have "Suc k \<le> i \<and> i < j" by simp
    with assms(2) show ?thesis by (simp add: firstUnique_def)
  qed
qed

text \<open>Whatever the generator returns is the first unique candidate.\<close>

lemma generateShortCode_Some:
  assumes "generateShortCode urls ins rnd k = Some y"
  shows "\<exists>j. firstUnique urls ins rnd k j \<and> y = (substring (rnd j) 2 8, Suc j)"
proof (rule generateShortCode.raw_induct
    [where P = "\<lambda>urls ins rnd k y.
                  \<exists>j. firstUnique urls ins rnd k j \<and> y = (substring (rnd j) 2 8, Suc j)",
     OF _ assms])
  fix gen :: "entry list \<Rightarrow> input list \<Rightarrow> (nat \<Rightarrow> string) \<Rightarrow> nat \<Rightarrow> (string \<times> nat) option"
  fix urls ins rnd k y
  assume IH: "\<And>urls ins rnd k y. gen urls ins rnd k = Some y \<Longrightarrow>
      \<exists>j. firstUnique urls ins rnd k j \<and> y = (substring (rnd j) 2 8, Suc j)"
    and step: "(if \<not> isShortcodeUnique urls ins (substring (rnd k) 2 8) (- 1)
                then gen urls ins rnd (Suc k)
                else Some (substring (rnd k) 2 8, Suc k)) = Some y"
  show "\<exists>j. firstUnique urls ins rnd k j \<and> y = (substring (rnd j) 2 8, Suc j)"
  proof (cases "isShortcodeUnique urls ins (substring (rnd k) 2 8) (- 1)")
    case True
    with step have "y = (substring (rnd k) 2 8, Suc k)" by simp
    moreover from True have "firstUnique urls ins rnd k k"
      by (rule firstUnique_here [of urls ins rnd k])
    ultimately show ?thesis by blast
  next
    case False
    with step have "gen urls ins rnd (Suc k) = Some y" by simp
    then have "\<exists>j. firstUnique urls ins rnd (Suc k) j \<and> y = (substring (rnd j) 2 8, Suc j)"
      by (rule IH [of urls ins rnd "Suc k" y])
    then obtain j where j: "firstUnique urls ins rnd (Suc k) j" "y = (substring (rnd j) 2 8, Suc j)"
      by blast
    from False j(1) have "firstUnique urls ins rnd k j"
      by (rule firstUnique_later [of urls ins rnd k j])
    with j(2) show ?thesis by blast
  qed
qed

lemma generateShortCode_first:
  "isShortcodeUnique urls ins (substring (rnd k) 2 8) (- 1) \<Longrightarrow>
     generateShortCode urls ins rnd k = Some (substring (rnd k) 2 8, Suc k)"
  by (subst generateShortCode.simps) simp

lemma generateShortCode_retry:
  "\<not> isShortcodeUnique urls ins (substring (rnd k) 2 8) (- 1) \<Longrightarrow>
     generateShortCode urls ins rnd k = generateShortCode urls ins rnd (Suc k)"
  by (subst generateShortCode.simps) simp

text \<open>The loop ends as soon as some candidate is unique, and it ends at the first one.\<close>

lemma generateShortCode_reaches:
  "firstUnique urls ins rnd k (k + d) \<Longrightarrow>
     generateShortCode urls ins rnd k = Some (substring (rnd (k + d)) 2 8, Suc (k + d))"
proof (induction d arbitrary: k)
  case 0
  then have "isShortcodeUnique urls ins (substring (rnd k) 2 8) (- 1)"
    by (simp add: firstUnique_def)
  then have "generateShortCode urls ins rnd k = Some (substring (rnd k) 2 8, Suc k)"
    by (rule generateShortCode_first [of urls ins rnd k])
  then show ?case by simp
next
  case (Suc d)
  have "k \<le> k \<and> k < k + Suc d" by simp
  with Suc.prems have no: "\<not> isShortcodeUnique urls ins (substring (rnd k) 2 8) (- 1)"
    unfolding firstUnique_def by blast
  from Suc.prems have "firstUnique urls ins rnd (Suc k) (Suc k + d)"
    unfolding firstUnique_def by (simp add: Suc_le_eq)
  then have "generateShortCode urls ins rnd (Suc k)
      = Some (substring (rnd (Suc k + d)) 2 8, Suc (Suc k + d))"
    by (rule Suc.IH [of "Suc k"])
  moreover from no have "generateShortCode urls ins rnd k = generateShortCode urls ins rnd (Suc k)"
    by (rule generateShortCode_retry [of urls ins rnd k])
  ultimately show ?case by simp
qed

lemma firstUnique_exists:
  assumes "k \<le> j" "isShortcodeUnique urls ins (substring (rnd j) 2 8) (- 1)"
  shows "\<exists>m. firstUnique urls ins rnd k m \<and> m \<le> j"
proof -
  define Q where "Q = (\<lambda>m. k \<le> m \<and> isShortcodeUnique urls ins (substring (rnd m) 2 8) (- 1))"
  have "Q j" using assms by (simp add: Q_def)
  then have "Q (Least Q)" by (rule LeastI)
  moreover have "\<not> Q i" if "i < Least Q" for i
    using that by (rule not_less_Least)
  ultimately have "firstUnique urls ins rnd k (Least Q)"
    unfolding firstUnique_def Q_def by blast
  moreover from \<open>Q j\<close> have "Least Q \<le> j" by (rule Least_le)
  ultimately show ?thesis by blast
qed

lemma generateShortCode_iff:
  "generateShortCode urls ins rnd k = Some y \<longleftrightarrow>
     (\<exists>j. firstUnique urls ins rnd k j \<and> y = (substring (rnd j) 2 8, Suc j))"
proof
  assume "generateShortCode urls ins rnd k = Some y"
  then show "\<exists>j. firstUnique urls ins rnd k j \<and> y = (substring (rnd j) 2 8, Suc j)"
    by (rule generateShortCode_Some)
next
  assume "\<exists>j. firstUnique urls ins rnd k j \<and> y = (substring (rnd j) 2 8, Suc j)"
  then obtain j where j: "firstUnique urls ins rnd k j" "y = (substring (rnd j) 2 8, Suc j)"
    by blast
  from j(1) have "k \<le> j" by (simp add: firstUnique_def)
  then have "j = k + (j - k)" by simp
  with j(1) have "firstUnique urls ins rnd k (k + (j - k))" by simp
  then have "generateShortCode urls ins rnd k
      = Some (substring (rnd (k + (j - k))) 2 8, Suc (k + (j - k)))"
    by (rule generateShortCode_reaches [of urls ins rnd k "j - k"])
  with \<open>k \<le> j\<close> j(2) show "generateShortCode urls ins rnd k = Some y" by simp
qed

text \<open>The generator returns exactly when some candidate from \<open>k\<close> on is unique; it loops
  for ever when none is.\<close>

lemma generateShortCode_returns_iff:
  "(\<exists>y. generateShortCode urls ins rnd k = Some y) \<longleftrightarrow>
     (\<exists>j\<ge>k. isShortcodeUnique urls ins (substring (rnd j) 2 8) (- 1))"
proof
  assume "\<exists>y. generateShortCode urls ins rnd k = Some y"
  then obtain y j where "firstUnique urls ins rnd k j"
    unfolding generateShortCode_iff by blast
  then show "\<exists>j\<ge>k. isShortcodeUnique urls ins (substring (rnd j) 2 8) (- 1)"
    unfolding firstUnique_def by blast
next
  assume "\<exists>j\<ge>k. isShortcodeUnique urls ins (substring (rnd j) 2 8) (- 1)"
  then obtain j where "k \<le> j" "isShortcodeUnique urls ins (substring (rnd j) 2 8) (- 1)"
    by blast
  then have "\<exists>m. firstUnique urls ins rnd k m \<and> m \<le> j"
    by (rule firstUnique_exists)
  then show "\<exists>y. generateShortCode urls ins rnd k = Some y"
    unfolding generateShortCode_iff by blast
qed

text \<open>A generated code is no stored code and no shortcode field of any row of the form;
  it has at most six characters.\<close>

lemma generateShortCode_fresh:
  assumes "generateShortCode urls ins rnd k = Some (code, k')"
  shows "(\<forall>e \<in> set urls. shortcode e \<noteq> code)
     \<and> (\<forall>i < length ins. shortcode_in (ins ! i) \<noteq> code)
     \<and> length code \<le> 6"
proof -
  from generateShortCode_Some [OF assms] obtain j where
    j: "firstUnique urls ins rnd k j" and code: "code = substring (rnd j) 2 8"
    by auto
  from j have "isShortcodeUnique urls ins code (- 1)"
    by (simp add: firstUnique_def code)
  then have "(\<forall>e \<in> set urls. shortcode e \<noteq> code)
     \<and> (\<forall>i < length ins. shortcode_in (ins ! i) \<noteq> code)"
    by (simp add: isShortcodeUnique_iff)
  moreover have "length code \<le> 6"
    by (simp add: code length_substring)
  ultimately show ?thesis by blast
qed

subsection \<open>Submission\<close>

lemma handleShorten_invalid:
  "newErrors p st \<noteq> [] \<Longrightarrow>
     handleShorten p st = Some (Rejected (st\<lparr>errors := newErrors p st, successMessage := None\<rparr>))"
  by (simp add: handleShorten_def validateInputs_def)

lemma handleShorten_valid:
  assumes "newErrors p st = []"
  shows "handleShorten p st =
     (case newShortened p (shortenedUrls st) (inputs st) 0
             (filter (\<lambda>inp. url inp \<noteq> []) (inputs st)) of
        None \<Rightarrow> None
      | Some (Inl e) \<Rightarrow> Some (Threw e (st\<lparr>errors := []\<rparr>))
      | Some (Inr new) \<Rightarrow> Some (Shortened (commit p (st\<lparr>errors := []\<rparr>) new)))"
proof -
  have v: "validateInputs p st = (st\<lparr>errors := []\<rparr>, True)"
    using assms by (simp add: validateInputs_def)
  show ?thesis
    unfolding handleShorten_def v
    by (simp split: option.split sum.split)
qed

lemma handleShorten_Shortened:
  assumes "handleShorten p st = Some (Shortened st')"
  shows "newErrors p st = []
     \<and> (\<exists>new. newShortened p (shortenedUrls st) (inputs st) 0
                  (filter (\<lambda>inp. url inp \<noteq> []) (inputs st)) = Some (Inr new)
          \<and> st' = commit p (st\<lparr>errors := []\<rparr>) new)"
proof -
  have ok: "newErrors p st = []"
  proof (rule ccontr)
    assume "newErrors p st \<noteq> []"
    from handleShorten_invalid [OF this] assms show False by simp
  qed
  from assms show ?thesis
    unfolding handleShorten_valid [OF ok] using ok
    by (simp split: option.splits sum.splits)
qed

lemma commit_fields:
  "shortenedUrls (commit p (st\<lparr>errors := []\<rparr>) new) = shortenedUrls st @ new"
  "storage (commit p (st\<lparr>errors := []\<rparr>) new)
     = (if new = [] then storage st else Some (stringify p (shortenedUrls st @ new)))"
  by (simp_all add: commit_def setStoredUrls_def)

lemma makeEntry_Inr:
  "makeEntry p inp code = Inr item \<Longrightarrow>
     item = \<lparr>originalUrl = url inp, shortcode = code, shortUrl = origin p @ ''/'' @ code,
             createdAt = now p,
             expiresAt = now p
               + (if validity inp = [] then 30 else int (parseInt (validity inp))) * 60000,
             clicks = 0\<rparr>"
  by (auto simp: makeEntry_def toISOString_def DEFAULT_VALIDITY_def Let_def split: if_splits)

text \<open>The callback throws exactly when the submission instant or the expiry is no valid
  time value.\<close>

lemma makeEntry_Inl_iff:
  "makeEntry p inp code = Inl RangeError \<longleftrightarrow>
     8640000000000000 < \<bar>now p\<bar>
     \<or> 8640000000000000
          < \<bar>now p + (if validity inp = [] then 30 else int (parseInt (validity inp))) * 60000\<bar>"
  by (auto simp: makeEntry_def toISOString_def DEFAULT_VALIDITY_def Let_def split: if_splits)

text \<open>The map gives one link per row, in order; the code of a link is the shortcode field
  of its row, or what the generator returned.\<close>

lemma newShortened_Inr:
  "newShortened p urls ins k rows = Some (Inr new) \<Longrightarrow>
     list_all2 (\<lambda>inp item. \<exists>code. makeEntry p inp code = Inr item
                  \<and> (if shortcode_in inp \<noteq> [] then code = shortcode_in inp
                      else \<exists>j j'. generateShortCode urls ins (random36 p) j = Some (code, j')))
       rows new"
proof (induction rows arbitrary: k new)
  case Nil
  then show ?case by simp
next
  case (Cons inp rest)
  from Cons.prems obtain code k' item items where
    code: "(if shortcode_in inp \<noteq> [] then Some (shortcode_in inp, k)
            else generateShortCode urls ins (random36 p) k) = Some (code, k')"
    and item: "makeEntry p inp code = Inr item"
    and items: "newShortened p urls ins k' rest = Some (Inr items)"
    and new: "new = item # items"
    by (auto split: option.splits sum.splits prod.splits)
  from code have "if shortcode_in inp \<noteq> [] then code = shortcode_in inp
      else \<exists>j j'. generateShortCode urls ins (random36 p) j = Some (code, j')"
    by (auto split: if_splits)
  with item Cons.IH [OF items] new show ?case by auto
qed

text \<open>When every submitted row has a shortcode typed in, the generator is never called
  and the map returns: with its links, or with the exception.\<close>

lemma newShortened_explicit:
  "\<forall>inp \<in> set rows. shortcode_in inp \<noteq> [] \<Longrightarrow> newShortened p urls ins k rows \<noteq> None"
proof (induction rows)
  case Nil
  then show ?case by simp
next
  case (Cons inp rest)
  then have "newShortened p urls ins k rest \<noteq> None" by simp
  with Cons.prems show ?case
    by (auto split: sum.splits option.splits)
qed


subsection \<open>Resolution\<close>




lemma RedirectShortUrl_missing:
  assumes "find (\<lambda>e. shortcode e = code) urls = None"
  shows "RedirectShortUrl p urls code item = (item, NavigateAfter 3000 ''/'')"
  using assms by (simp add: RedirectShortUrl_def)




subsection \<open>Runs on the concrete inputs\<close>

lemma newErrors_same1:
  "newErrors demo batch_same1 =
     [((Shortcode, 0), ''This code is already taken''),
      ((Shortcode, 1), ''This code is already taken'')]"
  by (simp add: newErrors_def batch_same1_def fresh_def row_def blank_def validateRow_def
      demo_def isValidUrl_def isValidShortcode_def isAlnum_def isShortcodeUnique_def)

lemma newErrors_ab:
  "newErrors demo batch_ab = [((Shortcode, 0), ''3-10 alphanumeric chars'')]"
  by (simp add: newErrors_def batch_ab_def fresh_def row_def blank_def validateRow_def demo_def
      isValidUrl_def isValidShortcode_def)

lemma newErrors_ghost:
  "newErrors demo batch_ghost = [((Shortcode, 0), ''This code is already taken'')]"
  by (simp add: newErrors_def batch_ghost_def fresh_def row_def blank_def validateRow_def
      demo_def isValidUrl_def isValidShortcode_def isAlnum_def isShortcodeUnique_def)

lemma newErrors_ab_ghost:
  "newErrors demo batch_ab_ghost = [((Shortcode, 0), ''3-10 alphanumeric chars'')]"
  by (simp add: newErrors_def batch_ab_ghost_def fresh_def row_def blank_def validateRow_def
      demo_def isValidUrl_def isValidShortcode_def)

lemma handleShorten_returning: "handleShorten demo returning = Some (Shortened returned)"
proof -
  have e: "newErrors demo returning = []"
    by (simp add: newErrors_def returning_def row_def blank_def validateRow_def
        demo_def isValidUrl_def isValidShortcode_def isAlnum_def isShortcodeUnique_def
        digitsOnly_def isDigit_def parseInt_def link0_def)
  have u0: "\<not> isShortcodeUnique (shortenedUrls returning) (inputs returning)
             (substring (random36 demo 0) 2 8) (- 1)"
    by (simp add: isShortcodeUnique_def returning_def demo_def substring_def link0_def)
  have u1: "isShortcodeUnique (shortenedUrls returning) (inputs returning)
             (substring (random36 demo (Suc 0)) 2 8) (- 1)"
    by (simp add: isShortcodeUnique_def returning_def row_def blank_def demo_def substring_def
        link0_def)
  have "generateShortCode (shortenedUrls returning) (inputs returning) (random36 demo) 0
      = generateShortCode (shortenedUrls returning) (inputs returning) (random36 demo) (Suc 0)"
    using u0 by (rule generateShortCode_retry [of _ _ "random36 demo" 0])
  also have "\<dots> = Some (substring (random36 demo (Suc 0)) 2 8, Suc (Suc 0))"
    using u1 by (rule generateShortCode_first [of _ _ "random36 demo" "Suc 0"])
  finally have g: "generateShortCode (shortenedUrls returning) (inputs returning) (random36 demo) 0
      = Some (''k9x2b7'', 2)"
    by (simp add: demo_def substring_def)
  have f: "filter (\<lambda>inp. url inp \<noteq> []) (inputs returning)
      = [row ''https://b.org/x'' ''45'' ''mycode1'', row ''https://c.net'' [] []]"
    by (simp add: returning_def row_def blank_def)
  have m1: "makeEntry demo (row ''https://b.org/x'' ''45'' ''mycode1'') ''mycode1'' = Inr link1"
    by (simp add: makeEntry_def row_def demo_def toISOString_def parseInt_def link1_def)
  have m2: "makeEntry demo (row ''https://c.net'' [] []) ''k9x2b7'' = Inr link2"
    by (simp add: makeEntry_def row_def demo_def toISOString_def DEFAULT_VALIDITY_def link2_def)
  have s1: "shortcode_in (row ''https://b.org/x'' ''45'' ''mycode1'') = ''mycode1''"
    and s2: "shortcode_in (row ''https://c.net'' [] []) = []"
    by (simp_all add: row_def)
  have n: "newShortened demo (shortenedUrls returning) (inputs returning) 0
             (filter (\<lambda>inp. url inp \<noteq> []) (inputs returning))
      = Some (Inr [link1, link2])"
    unfolding f by (simp add: s1 s2 g m1 m2)
  show ?thesis
    unfolding handleShorten_valid [OF e] n
    by (simp add: commit_def setStoredUrls_def returning_def returned_def demo_def
        link0_def link1_def link2_def)
qed



section \<open>The claims\<close>

subsection \<open>C1: a batch with any validation error is rejected as a whole\<close>

text \<open>
  Claim C1. A row with a URL leaves an error when its URL does not parse, when its
  validity is not a positive number, when its shortcode is malformed, stored already, or
  typed into another row of the form as well. When the validation of the submitted rows
  yields any error, \<^verbatim>\<open>handleShorten\<close> takes its early return: the component then shows exactly the errors found, and neither
  its list of links nor the item in the store has changed, so no row of the batch has
  become a link, valid or not. In particular, when two rows carry the shortcode
  \<^verbatim>\<open>same1\<close>, each of them that has a URL is reported as taken (the second of two
  submitted rows among them), and the batch is rejected in this way.
\<close>

theorem submitBatch_rejects_whole_batch:
  "(idx < length (inputs st) \<and> url (inputs st ! idx) \<noteq> []
      \<and> (\<not> isValidUrl p (url (inputs st ! idx))
         \<or> (validity (inputs st ! idx) \<noteq> []
             \<and> (\<not> digitsOnly (validity (inputs st ! idx))
                \<or> parseInt (validity (inputs st ! idx)) = 0))
         \<or> (shortcode_in (inputs st ! idx) \<noteq> []
             \<and> (\<not> isValidShortcode (shortcode_in (inputs st ! idx))
                \<or> (\<exists>e \<in> set (shortenedUrls st). shortcode e = shortcode_in (inputs st ! idx))
                \<or> (\<exists>k<length (inputs st).
                      k \<noteq> idx \<and> shortcode_in (inputs st ! k) = shortcode_in (inputs st ! idx)))))
      \<longrightarrow> newErrors p st \<noteq> [])
   \<and> (newErrors p st \<noteq> [] \<longrightarrow>
      (\<exists>st'. handleShorten p st = Some (Rejected st')
         \<and> errors st' = newErrors p st
         \<and> storage st' = storage st
         \<and> shortenedUrls st' = shortenedUrls st))
   \<and> (i < length (inputs st) \<and> j < length (inputs st) \<and> i \<noteq> j
        \<and> url (inputs st ! i) \<noteq> []
        \<and> shortcode_in (inputs st ! i) = ''same1''
        \<and> shortcode_in (inputs st ! j) = ''same1'' \<longrightarrow>
      ((Shortcode, i), ''This code is already taken'') \<in> set (newErrors p st)
      \<and> (\<exists>st'. handleShorten p st = Some (Rejected st')
         \<and> errors st' = newErrors p st
         \<and> storage st' = storage st
         \<and> shortenedUrls st' = shortenedUrls st))"
proof -
  have kinds: "newErrors p st \<noteq> []"
    if "idx < length (inputs st)" and "url (inputs st ! idx) \<noteq> []"
      and "\<not> isValidUrl p (url (inputs st ! idx))
         \<or> (validity (inputs st ! idx) \<noteq> []
             \<and> (\<not> digitsOnly (validity (inputs st ! idx))
                \<or> parseInt (validity (inputs st ! idx)) = 0))
         \<or> (shortcode_in (inputs st ! idx) \<noteq> []
             \<and> (\<not> isValidShortcode (shortcode_in (inputs st ! idx))
                \<or> (\<exists>e \<in> set (shortenedUrls st). shortcode e = shortcode_in (inputs st ! idx))
                \<or> (\<exists>k<length (inputs st).
                      k \<noteq> idx \<and> shortcode_in (inputs st ! k) = shortcode_in (inputs st ! idx))))"
  proof -
    from that(2,3)
    have "validateRow p (shortenedUrls st) (inputs st) idx (inputs st ! idx) \<noteq> []"
      unfolding validateRow_nonempty_iff by blast
    with that(1) show ?thesis
      unfolding newErrors_nonempty_iff by blast
  qed
  have rejected: "\<exists>st'. handleShorten p st = Some (Rejected st')
         \<and> errors st' = newErrors p st
         \<and> storage st' = storage st
         \<and> shortenedUrls st' = shortenedUrls st" if "newErrors p st \<noteq> []"
    using handleShorten_invalid [OF that] by simp
  have taken: "((Shortcode, i), ''This code is already taken'') \<in> set (newErrors p st)"
    if "i < length (inputs st)" "j < length (inputs st)" "i \<noteq> j"
      "url (inputs st ! i) \<noteq> []"
      "shortcode_in (inputs st ! i) = ''same1''" "shortcode_in (inputs st ! j) = ''same1''"
    using that valid_same1 by (rule taken_error)
  have both: "((Shortcode, i), ''This code is already taken'') \<in> set (newErrors p st)
      \<and> (\<exists>st'. handleShorten p st = Some (Rejected st')
         \<and> errors st' = newErrors p st
         \<and> storage st' = storage st
         \<and> shortenedUrls st' = shortenedUrls st)"
    if "i < length (inputs st)" "j < length (inputs st)" "i \<noteq> j"
      "url (inputs st ! i) \<noteq> []"
      "shortcode_in (inputs st ! i) = ''same1''" "shortcode_in (inputs st ! j) = ''same1''"
  proof -
    from that have t: "((Shortcode, i), ''This code is already taken'') \<in> set (newErrors p st)"
      by (rule taken)
    then have "newErrors p st \<noteq> []" by auto
    with t rejected show ?thesis by blast
  qed
  from kinds rejected both show ?thesis by blast
qed

theorem submitBatch_rejects_whole_batch_witness:
  "length (inputs batch_same1) = 5
   \<and> url (inputs batch_same1 ! 1) = ''https://b.com''
   \<and> shortcode_in (inputs batch_same1 ! 1) = ''same1''
   \<and> shortcode_in (inputs batch_same1 ! 0) = ''same1''
   \<and> newErrors demo batch_same1 \<noteq> []
   \<and> ((Shortcode, 1), ''This code is already taken'') \<in> set (newErrors demo batch_same1)
   \<and> (\<exists>st'. handleShorten demo batch_same1 = Some (Rejected st')
         \<and> errors st' = newErrors demo batch_same1
         \<and> storage st' = None
         \<and> shortenedUrls st' = [])"
proof -
  have rows: "length (inputs batch_same1) = 5"
    "url (inputs batch_same1 ! 1) = ''https://b.com''"
    "shortcode_in (inputs batch_same1 ! 1) = ''same1''"
    "shortcode_in (inputs batch_same1 ! 0) = ''same1''"
    by (simp_all add: batch_same1_def fresh_def row_def)
  have before: "storage batch_same1 = None" "shortenedUrls batch_same1 = []"
    by (simp_all add: batch_same1_def fresh_def)
  have dup: "\<exists>k<length (inputs batch_same1).
      k \<noteq> 1 \<and> shortcode_in (inputs batch_same1 ! k) = shortcode_in (inputs batch_same1 ! 1)"
    using rows by (intro exI [of _ 0]) simp
  from rows dup submitBatch_rejects_whole_batch [of 1 batch_same1 demo 1 0]
  have e: "newErrors demo batch_same1 \<noteq> []"
    by simp
  from rows before submitBatch_rejects_whole_batch [of 1 batch_same1 demo 1 0]
  have t: "((Shortcode, 1), ''This code is already taken'') \<in> set (newErrors demo batch_same1)
      \<and> (\<exists>st'. handleShorten demo batch_same1 = Some (Rejected st')
         \<and> errors st' = newErrors demo batch_same1
         \<and> storage st' = None
         \<and> shortenedUrls st' = [])"
    by simp
  with rows e show ?thesis by simp
qed

subsection \<open>C3: a stored code resolves and counts one click\<close>



subsection \<open>C4: an unknown code is not found and leaves the store alone\<close>

text \<open>
  Claim C4. When no link of the list carries the code, and so in particular when the
  list is empty, the effect of the redirect view leaves the item in the store exactly as
  it found it, and its only action is to schedule the navigation to the home path
  \<^verbatim>\<open>/\<close> with a delay of 3000 milliseconds.
\<close>

theorem resolve_not_found:
  "((\<forall>e \<in> set urls. shortcode e \<noteq> code) \<longrightarrow>
      RedirectShortUrl p urls code item = (item, NavigateAfter 3000 ''/''))
   \<and> RedirectShortUrl p [] code item = (item, NavigateAfter 3000 ''/'')"
proof -
  have "find (\<lambda>e. shortcode e = code) urls = None" if "\<forall>e \<in> set urls. shortcode e \<noteq> code"
    using that by (simp add: find_None_iff)
  then have "RedirectShortUrl p urls code item = (item, NavigateAfter 3000 ''/'')"
    if "\<forall>e \<in> set urls. shortcode e \<noteq> code"
    using that by (simp add: RedirectShortUrl_missing)
  moreover have "RedirectShortUrl p [] code item = (item, NavigateAfter 3000 ''/'')"
    by (simp add: RedirectShortUrl_missing)
  ultimately show ?thesis by blast
qed

theorem resolve_not_found_witness:
  "shortcode link0 \<noteq> ''missing'' \<and> shortcode link1 \<noteq> ''missing''
   \<and> RedirectShortUrl demo [link0, link1] ''missing'' (Some ''4fzyo8:https://example.com;'') =
        (Some ''4fzyo8:https://example.com;'', NavigateAfter 3000 ''/'')
   \<and> RedirectShortUrl demo [] ''missing'' None = (None, NavigateAfter 3000 ''/'')"
proof -
  have a: "shortcode link0 \<noteq> ''missing''" "shortcode link1 \<noteq> ''missing''"
    by (simp_all add: link0_def link1_def)
  then have b: "\<forall>e \<in> set [link0, link1]. shortcode e \<noteq> ''missing''"
    by simp
  from resolve_not_found [of "[link0, link1]" "''missing''" demo "Some ''4fzyo8:https://example.com;''"]
    resolve_not_found [of "[]" "''missing''" demo None] a b
  show ?thesis by blast
qed

subsection \<open>C5: the fields of a created link\<close>

text \<open>
  Claim C5. When \<^verbatim>\<open>handleShorten\<close> runs to its end, the links it has added stand behind
  the links held before, one for each row with a non-empty URL and in the order of the
  rows; rows with an empty URL have no link. The link of a row has the row's URL as its
  target, no clicks, the instant of the submission as its creation time (the same for
  every link of the batch), and an expiry later than its creation by the validity in
  minutes times 60000 milliseconds: the validity is the number typed, a string of digits
  with a positive value, or 30 when the field is empty. Its short URL is the origin, a
  slash and its shortcode, and its shortcode is the one typed when one was typed.
\<close>

theorem submitBatch_entry_fields:
  assumes "handleShorten p st = Some (Shortened st')"
  shows "\<exists>new. shortenedUrls st' = shortenedUrls st @ new
     \<and> list_all2
          (\<lambda>inp item.
             url inp \<noteq> [] \<and> originalUrl item = url inp
             \<and> clicks item = 0
             \<and> createdAt item = now p
             \<and> (validity inp \<noteq> [] \<longrightarrow> digitsOnly (validity inp) \<and> 0 < parseInt (validity inp))
             \<and> expiresAt item = createdAt item
                  + (if validity inp = [] then 30 else int (parseInt (validity inp))) * 60000
             \<and> shortUrl item = origin p @ ''/'' @ shortcode item
             \<and> (shortcode_in inp \<noteq> [] \<longrightarrow> shortcode item = shortcode_in inp))
          (filter (\<lambda>inp. url inp \<noteq> []) (inputs st)) new"
proof -
  let ?rows = "filter (\<lambda>inp. url inp \<noteq> []) (inputs st)"
  from handleShorten_Shortened [OF assms] obtain new where
    ok: "newErrors p st = []"
    and new: "newShortened p (shortenedUrls st) (inputs st) 0 ?rows = Some (Inr new)"
    and st': "st' = commit p (st\<lparr>errors := []\<rparr>) new"
    by blast
  have "shortenedUrls st' = shortenedUrls st @ new"
    by (simp add: st' commit_fields)
  moreover have "list_all2
          (\<lambda>inp item.
             url inp \<noteq> [] \<and> originalUrl item = url inp
             \<and> clicks item = 0
             \<and> createdAt item = now p
             \<and> (validity inp \<noteq> [] \<longrightarrow> digitsOnly (validity inp) \<and> 0 < parseInt (validity inp))
             \<and> expiresAt item = createdAt item
                  + (if validity inp = [] then 30 else int (parseInt (validity inp))) * 60000
             \<and> shortUrl item = origin p @ ''/'' @ shortcode item
             \<and> (shortcode_in inp \<noteq> [] \<longrightarrow> shortcode item = shortcode_in inp))
          ?rows new"
  proof (rule list.rel_mono_strong [OF newShortened_Inr [OF new]])
    fix inp item
    assume inp: "inp \<in> set ?rows" and "item \<in> set new"
      and "\<exists>code. makeEntry p inp code = Inr item
             \<and> (if shortcode_in inp \<noteq> [] then code = shortcode_in inp
                 else \<exists>j j'. generateShortCode (shortenedUrls st) (inputs st) (random36 p) j
                        = Some (code, j'))"
    then obtain code where mk: "makeEntry p inp code = Inr item"
      and code: "shortcode_in inp \<noteq> [] \<longrightarrow> code = shortcode_in inp"
      by (auto split: if_splits)
    from inp have u: "url inp \<noteq> []" and mem: "inp \<in> set (inputs st)" by simp_all
    have v: "validity inp \<noteq> [] \<longrightarrow> digitsOnly (validity inp) \<and> 0 < parseInt (validity inp)"
      using valid_rows [OF ok mem u] by blast
    from makeEntry_Inr [OF mk] u v code
    show "url inp \<noteq> [] \<and> originalUrl item = url inp
             \<and> clicks item = 0
             \<and> createdAt item = now p
             \<and> (validity inp \<noteq> [] \<longrightarrow> digitsOnly (validity inp) \<and> 0 < parseInt (validity inp))
             \<and> expiresAt item = createdAt item
                  + (if validity inp = [] then 30 else int (parseInt (validity inp))) * 60000
             \<and> shortUrl item = origin p @ ''/'' @ shortcode item
             \<and> (shortcode_in inp \<noteq> [] \<longrightarrow> shortcode item = shortcode_in inp)"
      by simp
  qed
  ultimately show ?thesis by blast
qed

theorem submitBatch_entry_fields_witness:
  "handleShorten demo returning = Some (Shortened returned)
   \<and> filter (\<lambda>inp. url inp \<noteq> []) (inputs returning)
       = [row ''https://b.org/x'' ''45'' ''mycode1'', row ''https://c.net'' [] []]
   \<and> (\<exists>new. shortenedUrls returned = shortenedUrls returning @ new
     \<and> list_all2
          (\<lambda>inp item.
             url inp \<noteq> [] \<and> originalUrl item = url inp
             \<and> clicks item = 0
             \<and> createdAt item = now demo
             \<and> (validity inp \<noteq> [] \<longrightarrow> digitsOnly (validity inp) \<and> 0 < parseInt (validity inp))
             \<and> expiresAt item = createdAt item
                  + (if validity inp = [] then 30 else int (parseInt (validity inp))) * 60000
             \<and> shortUrl item = origin demo @ ''/'' @ shortcode item
             \<and> (shortcode_in inp \<noteq> [] \<longrightarrow> shortcode item = shortcode_in inp))
          (filter (\<lambda>inp. url inp \<noteq> []) (inputs returning)) new)"
proof -
  have "filter (\<lambda>inp. url inp \<noteq> []) (inputs returning)
       = [row ''https://b.org/x'' ''45'' ''mycode1'', row ''https://c.net'' [] []]"
    by (simp add: returning_def row_def blank_def)
  with submitBatch_entry_fields [OF handleShorten_returning] handleShorten_returning
  show ?thesis by blast
qed

subsection \<open>C6: a submission appends to what the component holds\<close>




subsection \<open>C7: resolution does not look at the expiry\<close>



subsection \<open>C8: the format check of a custom code\<close>

text \<open>
  Claim C8. For a row with a non-empty URL and a non-empty shortcode field, the error
  \<^verbatim>\<open>3-10 alphanumeric chars\<close> is recorded for the row exactly when the code fails
  \<^verbatim>\<open>isValidShortcode\<close>, the test against \<^verbatim>\<open>/^[a-zA-Z0-9]{3,10}$/\<close>: a code passes
  when it has 3 to 10 characters, all of them letters or digits. The batch is then
  rejected with the state of the links and the store as they were. A row whose
  shortcode field is empty never has an error under its shortcode key. The code
  \<^verbatim>\<open>ab\<close> fails the test.
\<close>

theorem shortcode_format_check:
  "(idx < length (inputs st) \<and> url (inputs st ! idx) \<noteq> []
      \<and> shortcode_in (inputs st ! idx) \<noteq> [] \<longrightarrow>
      (((Shortcode, idx), ''3-10 alphanumeric chars'') \<in> set (newErrors p st)
         \<longleftrightarrow> \<not> isValidShortcode (shortcode_in (inputs st ! idx)))
      \<and> (\<not> isValidShortcode (shortcode_in (inputs st ! idx)) \<longrightarrow>
           handleShorten p st =
             Some (Rejected (st\<lparr>errors := newErrors p st, successMessage := None\<rparr>))))
   \<and> (shortcode_in (inputs st ! idx) = [] \<longrightarrow>
        (\<forall>m. ((Shortcode, idx), m) \<notin> set (newErrors p st)))
   \<and> (isValidShortcode code \<longleftrightarrow>
        3 \<le> length code \<and> length code \<le> 10
        \<and> set code \<subseteq> set ''abcdefghijklmnopqrstuvwxyzABCDEFGHIJKLMNOPQRSTUVWXYZ0123456789'')
   \<and> \<not> isValidShortcode ''ab''"
proof -
  have a: "((Shortcode, idx), ''3-10 alphanumeric chars'') \<in> set (newErrors p st)
         \<longleftrightarrow> \<not> isValidShortcode (shortcode_in (inputs st ! idx))"
    if "idx < length (inputs st)" "url (inputs st ! idx) \<noteq> []"
      "shortcode_in (inputs st ! idx) \<noteq> []"
    using that by (rule format_error_iff)
  have b: "handleShorten p st =
      Some (Rejected (st\<lparr>errors := newErrors p st, successMessage := None\<rparr>))"
    if "idx < length (inputs st)" "url (inputs st ! idx) \<noteq> []"
      "shortcode_in (inputs st ! idx) \<noteq> []"
      "\<not> isValidShortcode (shortcode_in (inputs st ! idx))"
  proof -
    from that a have "((Shortcode, idx), ''3-10 alphanumeric chars'') \<in> set (newErrors p st)"
      by blast
    then have "newErrors p st \<noteq> []" by auto
    then show ?thesis by (rule handleShorten_invalid)
  qed
  have c: "\<forall>m. ((Shortcode, idx), m) \<notin> set (newErrors p st)"
    if "shortcode_in (inputs st ! idx) = []"
    using that by (simp add: no_shortcode_error)
  from a b c not_valid_ab isValidShortcode_iff [of code] show ?thesis by blast
qed

theorem shortcode_format_check_witness:
  "0 < length (inputs batch_ab) \<and> url (inputs batch_ab ! 0) = ''https://a.com''
   \<and> shortcode_in (inputs batch_ab ! 0) = ''ab''
   \<and> ((Shortcode, 0), ''3-10 alphanumeric chars'') \<in> set (newErrors demo batch_ab)
   \<and> handleShorten demo batch_ab =
        Some (Rejected (batch_ab\<lparr>errors := newErrors demo batch_ab, successMessage := None\<rparr>))
   \<and> shortcode_in (inputs batch_ab ! 1) = []
   \<and> (\<forall>m. ((Shortcode, 1), m) \<notin> set (newErrors demo batch_ab))"
proof -
  have h: "0 < length (inputs batch_ab)" "url (inputs batch_ab ! 0) = ''https://a.com''"
    "shortcode_in (inputs batch_ab ! 0) = ''ab''" "shortcode_in (inputs batch_ab ! 1) = []"
    by (simp_all add: batch_ab_def fresh_def row_def blank_def)
  from h shortcode_format_check [of 0 batch_ab demo "''ab''"]
    shortcode_format_check [of 1 batch_ab demo "''ab''"]
  show ?thesis by simp
qed

subsection \<open>C9: loading the store never fails\<close>

text \<open>
  Claim C9. \<^verbatim>\<open>getStoredUrls\<close> returns a value for every content of the store; the
  exception of the parser is a branch of it. When the key is absent, and when the stored
  text is one the parser rejects, the value is the empty array.
\<close>

theorem getStoredUrls_never_fails:
  "getStoredUrls parse_text None = JArray []
   \<and> (parse_text s = None \<longrightarrow> getStoredUrls parse_text (Some s) = JArray [])"
  by (simp add: getStoredUrls_def JSON_parse_def)

theorem getStoredUrls_never_fails_witness:
  "tiny_parse ''{broken'' = None
   \<and> getStoredUrls tiny_parse (Some ''{broken'') = JArray []
   \<and> getStoredUrls tiny_parse None = JArray []"
proof -
  have "tiny_parse ''{broken'' = None"
    by (simp add: tiny_parse_def)
  with getStoredUrls_never_fails [of tiny_parse "''{broken''"] show ?thesis by simp
qed

subsection \<open>C10: the code of a row without a URL still counts\<close>

text \<open>
  Claim C10, as the code has it. Let row \<open>j\<close> of the form have an empty URL and the
  shortcode field \<open>s\<close>. The row is skipped: no error is ever recorded under any of its
  keys, and it is not among the rows that are submitted. Its code counts all the same.
  Another row with a URL whose shortcode field is also \<open>s\<close> is reported as taken, and
  the batch is rejected, provided \<open>s\<close> is well formed; the format check comes first,
  so a malformed \<open>s\<close> is reported as malformed instead. And whatever the generator
  returns is different from \<open>s\<close>.
\<close>

theorem empty_url_row_code_counts:
  assumes "j < length (inputs st)" and "url (inputs st ! j) = []"
    and "shortcode_in (inputs st ! j) = s"
  shows "(\<forall>f m. ((f, j), m) \<notin> set (newErrors p st))
     \<and> inputs st ! j \<notin> set (filter (\<lambda>inp. url inp \<noteq> []) (inputs st))
     \<and> (i < length (inputs st) \<and> i \<noteq> j \<and> url (inputs st ! i) \<noteq> []
          \<and> shortcode_in (inputs st ! i) = s \<and> isValidShortcode s \<longrightarrow>
        ((Shortcode, i), ''This code is already taken'') \<in> set (newErrors p st)
        \<and> handleShorten p st =
            Some (Rejected (st\<lparr>errors := newErrors p st, successMessage := None\<rparr>)))
     \<and> (generateShortCode (shortenedUrls st) (inputs st) rnd k = Some (code, k') \<longrightarrow> code \<noteq> s)"
proof -
  have skipped: "\<forall>f m. ((f, j), m) \<notin> set (newErrors p st)"
    using assms(2) by (simp add: newErrors_key_iff validateRow_skips)
  have dropped: "inputs st ! j \<notin> set (filter (\<lambda>inp. url inp \<noteq> []) (inputs st))"
    using assms(2) by simp
  have taken: "((Shortcode, i), ''This code is already taken'') \<in> set (newErrors p st)
        \<and> handleShorten p st =
            Some (Rejected (st\<lparr>errors := newErrors p st, successMessage := None\<rparr>))"
    if "i < length (inputs st)" "i \<noteq> j" "url (inputs st ! i) \<noteq> []"
      "shortcode_in (inputs st ! i) = s" "isValidShortcode s"
  proof -
    have t: "((Shortcode, i), ''This code is already taken'') \<in> set (newErrors p st)"
      using that(1) assms(1) that(2,3,4) assms(3) that(5) by (rule taken_error)
    then have "newErrors p st \<noteq> []" by auto
    then have "handleShorten p st =
        Some (Rejected (st\<lparr>errors := newErrors p st, successMessage := None\<rparr>))"
      by (rule handleShorten_invalid)
    with t show ?thesis by simp
  qed
  have fresh: "code \<noteq> s"
    if "generateShortCode (shortenedUrls st) (inputs st) rnd k = Some (code, k')"
    using generateShortCode_fresh [OF that] assms(1,3) by blast
  from skipped dropped taken fresh show ?thesis by blast
qed

theorem empty_url_row_code_counts_witness:
  "url (inputs batch_ghost ! 1) = [] \<and> shortcode_in (inputs batch_ghost ! 1) = ''ghost1''
   \<and> url (inputs batch_ghost ! 0) = ''https://a.com''
   \<and> shortcode_in (inputs batch_ghost ! 0) = ''ghost1''
   \<and> isValidShortcode ''ghost1''
   \<and> ((Shortcode, 0), ''This code is already taken'') \<in> set (newErrors demo batch_ghost)
   \<and> handleShorten demo batch_ghost =
        Some (Rejected (batch_ghost\<lparr>errors := newErrors demo batch_ghost, successMessage := None\<rparr>))
   \<and> substring (ghostly 0) 2 8 = ''ghost1''
   \<and> generateShortCode (shortenedUrls batch_ghost) (inputs batch_ghost) ghostly 0
        = Some (''k9x2b7'', 2)
   \<and> ''k9x2b7'' \<noteq> ''ghost1''"
proof -
  have rows: "1 < length (inputs batch_ghost)" "0 < length (inputs batch_ghost)"
    "url (inputs batch_ghost ! 1) = []" "shortcode_in (inputs batch_ghost ! 1) = ''ghost1''"
    "url (inputs batch_ghost ! 0) = ''https://a.com''"
    "shortcode_in (inputs batch_ghost ! 0) = ''ghost1''"
    by (simp_all add: batch_ghost_def fresh_def row_def)
  have v: "isValidShortcode ''ghost1''"
    by (simp add: isValidShortcode_def isAlnum_def)
  have c: "substring (ghostly 0) 2 8 = ''ghost1''"
    by (simp add: ghostly_def substring_def)
  have u0: "\<not> isShortcodeUnique (shortenedUrls batch_ghost) (inputs batch_ghost)
             (substring (ghostly 0) 2 8) (- 1)"
    by (simp add: isShortcodeUnique_def batch_ghost_def fresh_def row_def blank_def
        ghostly_def substring_def)
  have u1: "isShortcodeUnique (shortenedUrls batch_ghost) (inputs batch_ghost)
             (substring (ghostly (Suc 0)) 2 8) (- 1)"
    by (simp add: isShortcodeUnique_def batch_ghost_def fresh_def row_def blank_def
        ghostly_def substring_def)
  have "generateShortCode (shortenedUrls batch_ghost) (inputs batch_ghost) ghostly 0
      = generateShortCode (shortenedUrls batch_ghost) (inputs batch_ghost) ghostly (Suc 0)"
    using u0 by (rule generateShortCode_retry [of _ _ ghostly 0])
  also have "\<dots> = Some (substring (ghostly (Suc 0)) 2 8, Suc (Suc 0))"
    using u1 by (rule generateShortCode_first [of _ _ ghostly "Suc 0"])
  finally have g: "generateShortCode (shortenedUrls batch_ghost) (inputs batch_ghost) ghostly 0
      = Some (''k9x2b7'', 2)"
    by (simp add: ghostly_def substring_def)
  from empty_url_row_code_counts [OF rows(1) rows(3) rows(4),
      of demo 0 ghostly 0 "''k9x2b7''" 2] rows v c g
  show ?thesis by simp
qed

text \<open>
  As C10 is worded, any code that repeats the code of a row without a URL is reported
  as taken. That fails for a code that is not well formed: with \<^verbatim>\<open>ab\<close> typed into a
  row with a URL and into a row without one, the only error of the batch is the format
  error of the first row.
\<close>

theorem empty_url_row_code_counterexample:
  "url (inputs batch_ab_ghost ! 1) = [] \<and> shortcode_in (inputs batch_ab_ghost ! 1) = ''ab''
   \<and> url (inputs batch_ab_ghost ! 0) = ''https://a.com''
   \<and> shortcode_in (inputs batch_ab_ghost ! 0) = ''ab''
   \<and> newErrors demo batch_ab_ghost = [((Shortcode, 0), ''3-10 alphanumeric chars'')]
   \<and> ((Shortcode, 0), ''This code is already taken'') \<notin> set (newErrors demo batch_ab_ghost)"
  by (simp add: newErrors_ab_ghost) (simp add: batch_ab_ghost_def fresh_def row_def)

subsection \<open>C2: the generated code\<close>

text \<open>
  Claim C2 says that every generated code has six characters. The generator takes the
  characters at positions 2 to 7 of the random string, so it returns fewer when the
  string is short. With the random string \<^verbatim>\<open>0.i\<close> and a form whose only row has a URL
  and nothing else, the generator returns the code \<^verbatim>\<open>i\<close>, and \<^verbatim>\<open>handleShorten\<close>
  stores a link under it: a code of one character, which \<^verbatim>\<open>isValidShortcode\<close> does not
  accept. (That a generated code is no stored code and no shortcode field of the form is
  \<open>generateShortCode_fresh\<close>; when the loop ends is \<open>generateShortCode_returns_iff\<close>.)
\<close>

theorem generateShortCode_short_code:
  "generateShortCode (shortenedUrls batch_plain) (inputs batch_plain) (random36 half) 0
     = Some (''i'', 1)
   \<and> handleShorten half batch_plain = Some (Shortened halved)
   \<and> map shortcode (shortenedUrls halved) = [''i'']
   \<and> length ''i'' < 6
   \<and> \<not> isValidShortcode ''i''"
proof -
  have e: "newErrors half batch_plain = []"
    by (simp add: newErrors_def batch_plain_def fresh_def row_def blank_def validateRow_def
        half_def demo_def isValidUrl_def)
  have u: "isShortcodeUnique (shortenedUrls batch_plain) (inputs batch_plain)
             (substring (random36 half 0) 2 8) (- 1)"
    by (simp add: isShortcodeUnique_def batch_plain_def fresh_def row_def blank_def half_def
        demo_def substring_def)
  have "generateShortCode (shortenedUrls batch_plain) (inputs batch_plain) (random36 half) 0
      = Some (substring (random36 half 0) 2 8, Suc 0)"
    using u by (rule generateShortCode_first [of _ _ "random36 half" 0])
  then have g: "generateShortCode (shortenedUrls batch_plain) (inputs batch_plain) (random36 half) 0
      = Some (''i'', 1)"
    by (simp add: half_def demo_def substring_def)
  have f: "filter (\<lambda>inp. url inp \<noteq> []) (inputs batch_plain) = [row ''https://example.com'' [] []]"
    by (simp add: batch_plain_def fresh_def row_def blank_def)
  have m: "makeEntry half (row ''https://example.com'' [] []) ''i'' =
      Inr \<lparr>originalUrl = ''https://example.com'', shortcode = ''i'',
          shortUrl = ''http://localhost:5173/i'', createdAt = 1700000000000,
          expiresAt = 1700001800000, clicks = 0\<rparr>"
    by (simp add: makeEntry_def row_def half_def demo_def toISOString_def DEFAULT_VALIDITY_def)
  have s: "shortcode_in (row ''https://example.com'' [] []) = []"
    by (simp add: row_def)
  have n: "newShortened half (shortenedUrls batch_plain) (inputs batch_plain) 0
             (filter (\<lambda>inp. url inp \<noteq> []) (inputs batch_plain))
      = Some (Inr (shortenedUrls halved))"
    unfolding f by (simp add: s g m halved_def)
  have h: "handleShorten half batch_plain = Some (Shortened halved)"
    unfolding handleShorten_valid [OF e] n
    by (simp add: commit_def setStoredUrls_def batch_plain_def fresh_def halved_def half_def
        demo_def)
  have "map shortcode (shortenedUrls halved) = [''i'']"
    by (simp add: halved_def)
  moreover have "\<not> isValidShortcode ''i''"
    by (simp add: isValidShortcode_def)
  ultimately show ?thesis
    using g h by simp
qed

end
